theory Spec2Isabelle
  imports Main
begin

section \<open>JavaScript primitives used by \<^verbatim>\<open>src/index.ts\<close>\<close>

text \<open>
  Strings are lists of code units; the model keeps the code units below 256, which
  covers everything the two regular expressions and \<^verbatim>\<open>parseInt\<close> can tell apart
  except the white space characters above U+00FF.

  The environment variables of the process are a map from names to strings.
\<close>

type_synonym env = "string \<rightharpoonup> string"

text \<open>An environment written out as its list of \<^verbatim>\<open>NAME=value\<close> pairs.\<close>

definition env_of :: "(string \<times> string) list \<Rightarrow> env" where
  "env_of kvs = map_of kvs"

subsection \<open>The property read \<^verbatim>\<open>process.env[name]\<close>\<close>

text \<open>
  \<^verbatim>\<open>process.env\<close> is an object whose prototype is \<^verbatim>\<open>Object.prototype\<close>. A read
  of \<^verbatim>\<open>process.env[name]\<close> yields the variable of that name when one is set;
  otherwise the read goes up the prototype chain, and yields the property that
  \<^verbatim>\<open>Object.prototype\<close> has under the name (a function, or for \<^verbatim>\<open>__proto__\<close> the
  prototype object), or \<^verbatim>\<open>undefined\<close> when it has none. \<open>Object_prototype\<close> lists
  the property names of \<^verbatim>\<open>Object.prototype\<close> in a runtime where no program has
  added any.
\<close>

definition Object_prototype :: "string list" where
  "Object_prototype =
     [''constructor'', ''__defineGetter__'', ''__defineSetter__'', ''hasOwnProperty'',
      ''__lookupGetter__'', ''__lookupSetter__'', ''isPrototypeOf'',
      ''propertyIsEnumerable'', ''toString'', ''valueOf'', ''__proto__'',
      ''toLocaleString'']"

datatype envval = Undefined | Str string | Inherited string

definition process_env :: "env \<Rightarrow> string \<Rightarrow> envval" where
  "process_env e name =
     (case e name of
        Some v \<Rightarrow> Str v
      | None \<Rightarrow> if name \<in> set Object_prototype then Inherited name else Undefined)"

text \<open>
  \<^verbatim>\<open>!value\<close> for what such a read yields: \<^verbatim>\<open>undefined\<close> and the empty string
  are falsy, a function or an object is not.
\<close>

fun falsy :: "envval \<Rightarrow> bool" where
  "falsy Undefined = True"
| "falsy (Str s) = (s = [])"
| "falsy (Inherited n) = False"

text \<open>
  The conversion to a string that \<^verbatim>\<open>parseInt\<close> applies to its argument. A built-in
  function prints as \<^verbatim>\<open>function toString() { [native code] }\<close> (with
  \<^verbatim>\<open>Object\<close> for the constructor), the prototype object as
  \<^verbatim>\<open>[object Object]\<close>.
\<close>

fun ToString :: "envval \<Rightarrow> string" where
  "ToString Undefined = ''undefined''"
| "ToString (Str s) = s"
| "ToString (Inherited n) =
     (if n = ''__proto__'' then ''[object Object]''
      else ''function '' @ (if n = ''constructor'' then ''Object'' else n)
             @ ''() { [native code] }'')"

subsection \<open>Numbers\<close>

text \<open>
  A JavaScript Number as far as \<^verbatim>\<open>parseInt\<close> can produce one: \<^verbatim>\<open>NaN\<close>, the
  negative zero, an integer that a double holds exactly, or one of the two
  infinities.
\<close>

datatype number = NaN | NegZero | Num int | Infinity | NegInfinity

fun isNaN :: "number \<Rightarrow> bool" where
  "isNaN NaN = True"
| "isNaN NegZero = False"
| "isNaN (Num n) = False"
| "isNaN Infinity = False"
| "isNaN NegInfinity = False"

text \<open>The number of binary digits of a positive integer \<open>n\<close>.\<close>

function bit_length :: "int \<Rightarrow> nat" where
  "bit_length n = (if n \<le> 0 then 0 else Suc (bit_length (n div 2)))"
  by pat_completeness auto
termination
  by (relation "measure nat") auto

declare bit_length.simps [simp del]

text \<open>
  The double nearest to the integer \<open>n \<ge> 0\<close>: \<open>n\<close> itself when it has at
  most 53 binary digits; otherwise its leading 53 digits, rounded to nearest with
  ties to the even one, and \<open>None\<close> (infinity) when the result reaches
  \<open>2 ^ 1024\<close>.
\<close>

definition round_double :: "int \<Rightarrow> int option" where
  "round_double n =
     (if n < 2 ^ 53 then Some n
      else
        let k = bit_length n - 53;
            q = n div 2 ^ k;
            r = n mod 2 ^ k;
            h = 2 ^ (k - 1);
            q' = (if h < r \<or> (r = h \<and> odd q) then q + 1 else q);
            d = q' * 2 ^ k
        in if 2 ^ 1024 \<le> d then None else Some d)"

text \<open>The Number of \<open>sign * m\<close>, where \<open>sign\<close> is 1 or -1.\<close>

definition to_Number :: "int \<Rightarrow> int \<Rightarrow> number" where
  "to_Number sign m =
     (if m = 0 then (if sign < 0 then NegZero else Num 0)
      else case round_double m of
        None \<Rightarrow> (if sign < 0 then NegInfinity else Infinity)
      | Some d \<Rightarrow> Num (sign * d))"

subsection \<open>\<^verbatim>\<open>parseInt(string)\<close> with no radix\<close>

text \<open>
  White space and line terminators that \<^verbatim>\<open>parseInt\<close> skips: TAB, LF, VT, FF, CR, SP
  and NBSP.
\<close>

definition StrWhiteSpaceChar :: "char \<Rightarrow> bool" where
  "StrWhiteSpaceChar c \<longleftrightarrow>
     (of_char c :: nat) \<in> set [0x09, 0x0A, 0x0B, 0x0C, 0x0D, 0x20, 0xA0]"

text \<open>The value of a digit: \<^verbatim>\<open>0-9\<close>, then \<^verbatim>\<open>a-z\<close> or \<^verbatim>\<open>A-Z\<close> for 10 to 35.\<close>

definition digit_value :: "char \<Rightarrow> nat option" where
  "digit_value c =
     (let n = (of_char c :: nat) in
      if 48 \<le> n \<and> n \<le> 57 then Some (n - 48)
      else if 97 \<le> n \<and> n \<le> 122 then Some (n - 87)
      else if 65 \<le> n \<and> n \<le> 90 then Some (n - 55)
      else None)"

definition is_radix_digit :: "nat \<Rightarrow> char \<Rightarrow> bool" where
  "is_radix_digit R c = (case digit_value c of None \<Rightarrow> False | Some d \<Rightarrow> d < R)"

definition digit_of :: "char \<Rightarrow> nat" where
  "digit_of c = (case digit_value c of None \<Rightarrow> 0 | Some d \<Rightarrow> d)"

text \<open>The integer written by the digits \<open>Z\<close> in radix \<open>R\<close>, most significant first.\<close>

definition radix_value :: "nat \<Rightarrow> string \<Rightarrow> int" where
  "radix_value R Z = foldl (\<lambda>acc c. acc * int R + int (digit_of c)) 0 Z"

text \<open>
  The steps of the language definition: skip leading white space, take a sign, take a
  \<^verbatim>\<open>0x\<close> or \<^verbatim>\<open>0X\<close> prefix (radix 16, else radix 10), keep the longest run of
  digits of the radix, answer \<^verbatim>\<open>NaN\<close> when that run is empty, and otherwise the
  Number of the signed integer that the run writes.
\<close>

definition parseInt :: "string \<Rightarrow> number" where
  "parseInt inputString =
     (let S0 = dropWhile StrWhiteSpaceChar inputString;
          sign = (if S0 \<noteq> [] \<and> hd S0 = CHR ''-'' then - 1 else (1::int));
          S1 = (if S0 \<noteq> [] \<and> (hd S0 = CHR ''+'' \<or> hd S0 = CHR ''-'') then tl S0 else S0);
          hex = (2 \<le> length S1 \<and> (take 2 S1 = ''0x'' \<or> take 2 S1 = ''0X''));
          R = (if hex then 16 else 10);
          S2 = (if hex then drop 2 S1 else S1);
          Z = takeWhile (is_radix_digit R) S2
      in if Z = [] then NaN else to_Number sign (radix_value R Z))"

subsection \<open>\<^verbatim>\<open>String.prototype.split('\n')\<close>\<close>

fun split_nl :: "string \<Rightarrow> string list" where
  "split_nl [] = [[]]"
| "split_nl (c # cs) =
     (if c = CHR 0x0A then [] # split_nl cs
      else (case split_nl cs of
              [] \<Rightarrow> [[c]]
            | l # ls \<Rightarrow> (c # l) # ls))"

subsection \<open>The extraction pattern \<^verbatim>\<open>/ENV\.(opt\.|num\.)?([a-zA-Z0-9_]+)/\<close>\<close>

definition is_word_char :: "char \<Rightarrow> bool" where
  "is_word_char c =
     (let n = (of_char c :: nat) in
      (97 \<le> n \<and> n \<le> 122) \<or> (65 \<le> n \<and> n \<le> 90) \<or> (48 \<le> n \<and> n \<le> 57) \<or> c = CHR ''_'')"

definition starts_with :: "string \<Rightarrow> string \<Rightarrow> bool" where
  "starts_with p s = (take (length p) s = p)"

text \<open>
  A match attempt at the start of \<open>s\<close>. After \<^verbatim>\<open>ENV.\<close> the optional group is tried
  first, \<^verbatim>\<open>opt.\<close> before \<^verbatim>\<open>num.\<close>; when the name after it is empty the matcher
  backtracks and tries the name without the group (so \<^verbatim>\<open>ENV.opt.;\<close> yields the name
  \<^verbatim>\<open>opt\<close> and no modifier). The name is the longest run of word characters. The
  result is the pair of capture groups \<open>(mod', env_var)\<close>; a group that took no part is
  \<^verbatim>\<open>undefined\<close> (\<open>None\<close>).
\<close>

definition match_here :: "string \<Rightarrow> (string option \<times> string) option" where
  "match_here s =
     (if starts_with ''ENV.'' s then
        let r = drop 4 s in
        if starts_with ''opt.'' r \<and> takeWhile is_word_char (drop 4 r) \<noteq> []
          then Some (Some ''opt.'', takeWhile is_word_char (drop 4 r))
        else if starts_with ''num.'' r \<and> takeWhile is_word_char (drop 4 r) \<noteq> []
          then Some (Some ''num.'', takeWhile is_word_char (drop 4 r))
        else if takeWhile is_word_char r \<noteq> []
          then Some (None, takeWhile is_word_char r)
        else None
      else None)"

text \<open>
  \<^verbatim>\<open>exec\<close> without the \<^verbatim>\<open>g\<close> flag: the match at the leftmost position that has one.
\<close>

fun regex_exec :: "string \<Rightarrow> (string option \<times> string) option" where
  "regex_exec [] = match_here []"
| "regex_exec (c # cs) =
     (case match_here (c # cs) of
        Some m \<Rightarrow> Some m
      | None \<Rightarrow> regex_exec cs)"

subsection \<open>\<^verbatim>\<open>console.log\<close>\<close>

text \<open>One call prints one line: its string arguments separated by single spaces.\<close>

fun console_log :: "string list \<Rightarrow> string" where
  "console_log [] = []"
| "console_log [a] = a"
| "console_log (a # b # bs) = a @ '' '' @ console_log (b # bs)"

section \<open>The validator \<^verbatim>\<open>ok\<close>\<close>

text \<open>
  What the body of the \<^verbatim>\<open>for\<close> loop does with one line: it falls through to the
  next line, it \<^verbatim>\<open>return\<close>s from the handler, or it calls \<^verbatim>\<open>process.exit\<close>.
\<close>

datatype signal = Next | Return | Exit nat

text \<open>
  \<^verbatim>\<open>util.inspect\<close> is Node's, so the validator takes it as a parameter
  \<open>inspect\<close> and applies it to the value looked up. For concrete runs
  \<open>inspect_plain\<close> is what \<^verbatim>\<open>util.inspect\<close> answers on \<^verbatim>\<open>undefined\<close>, on a
  string with no quote, backslash or control character in it, and on a built-in
  function: the word \<^verbatim>\<open>undefined\<close>, the string between single quotes, and
  \<^verbatim>\<open>[Function: toString]\<close>.
\<close>

fun inspect_plain :: "envval \<Rightarrow> string" where
  "inspect_plain Undefined = ''undefined''"
| "inspect_plain (Str s) = [CHR 0x27] @ s @ [CHR 0x27]"
| "inspect_plain (Inherited n) =
     (if n = ''__proto__'' then ''[Object: null prototype] {}''
      else ''[Function: '' @ (if n = ''constructor'' then ''Object'' else n) @ '']'')"

definition required_message :: "string \<Rightarrow> string \<Rightarrow> string \<Rightarrow> string" where
  "required_message prefix env_var shown =
     ''ENV found required field '' @ prefix @ env_var @ '', but given value '' @ shown
       @ '' is incompatible.''"

definition check_line ::
    "(envval \<Rightarrow> string) \<Rightarrow> env \<Rightarrow> string \<Rightarrow> string list \<times> signal" where
  "check_line inspect e line =
     (if line = [] then ([], Return)
      else case regex_exec line of
        None \<Rightarrow>
          ([console_log [''Could not parse ENV grep result:'', take 100 line]], Return)
      | Some (mod', env_var) \<Rightarrow>
          if mod' = Some ''opt.'' then ([], Return)
          else
            let value = process_env e env_var in
            if mod' = Some ''num.'' then
              (if falsy value \<or> isNaN (parseInt (ToString value))
               then ([console_log [required_message ''num.'' env_var (inspect value)]], Exit 1)
               else ([], Next))
            else
              (if falsy value
               then ([console_log [required_message [] env_var (inspect value)]], Exit 1)
               else ([], Next)))"

text \<open>
  The loop over the lines of one chunk: what it prints, and the exit status if it
  ended the process.
\<close>

fun for_lines ::
    "(envval \<Rightarrow> string) \<Rightarrow> env \<Rightarrow> string list \<Rightarrow> string list \<times> nat option" where
  "for_lines inspect e [] = ([], None)"
| "for_lines inspect e (line # lines) =
     (case check_line inspect e line of
        (out, Next) \<Rightarrow>
          (case for_lines inspect e lines of (out', r) \<Rightarrow> (out @ out', r))
      | (out, Return) \<Rightarrow> (out, None)
      | (out, Exit n) \<Rightarrow> (out, Some n))"

definition on_stdout_data ::
    "(envval \<Rightarrow> string) \<Rightarrow> env \<Rightarrow> string \<Rightarrow> string list \<times> nat option" where
  "on_stdout_data inspect e data = for_lines inspect e (split_nl data)"

definition on_stderr_data :: "string \<Rightarrow> string list" where
  "on_stderr_data data = [console_log [''Error while grepping for ENV variables:'', data]]"

text \<open>
  The host process while the search runs: the lines printed so far and the exit
  status once \<^verbatim>\<open>process.exit\<close> has been called. The chunks of the child's two
  streams arrive as events; a process that has exited handles no more of them.
\<close>

record process =
  console :: "string list"
  exited :: "nat option"

datatype event = StdoutData string | StderrData string

definition started :: process where
  "started = \<lparr>console = [], exited = None\<rparr>"

definition handle ::
    "(envval \<Rightarrow> string) \<Rightarrow> env \<Rightarrow> process \<Rightarrow> event \<Rightarrow> process" where
  "handle inspect e p ev =
     (if exited p \<noteq> None then p
      else case ev of
        StdoutData data \<Rightarrow>
          (case on_stdout_data inspect e data of
             (out, r) \<Rightarrow> p\<lparr>console := console p @ out, exited := r\<rparr>)
      | StderrData data \<Rightarrow> p\<lparr>console := console p @ on_stderr_data data\<rparr>)"

fun run ::
    "(envval \<Rightarrow> string) \<Rightarrow> env \<Rightarrow> process \<Rightarrow> event list \<Rightarrow> process" where
  "run inspect e p [] = p"
| "run inspect e p (ev # evs) = run inspect e (handle inspect e p ev) evs"

definition ok :: "(envval \<Rightarrow> string) \<Rightarrow> env \<Rightarrow> event list \<Rightarrow> process" where
  "ok inspect e evs = run inspect e started evs"

section \<open>The accessor \<^verbatim>\<open>ENV\<close>\<close>

text \<open>
  Every \<^verbatim>\<open>throw\<close> of the accessor is \<^verbatim>\<open>new Error(message)\<close>, with one of two
  messages. \<open>MissingRequiredVariable\<close> and \<open>ImmutableAccessError\<close> name the error
  with the first and with the second message.
\<close>

datatype error = Error string

definition MissingRequiredVariable :: "string \<Rightarrow> error" where
  "MissingRequiredVariable name = Error (''Environment variable '' @ name @ '' is undefined.'')"

definition ImmutableAccessError :: error where
  "ImmutableAccessError = Error ''Cannot set env value.''"

text \<open>
  What a property read of the accessor can yield: what a read of \<^verbatim>\<open>process.env\<close>
  yields, a number, one of the two inner proxies, or the function \<^verbatim>\<open>ok\<close>.
\<close>

datatype jsvalue = Env envval | Number number | OptView | NumView | OkFunction

text \<open>\<^verbatim>\<open>ENV.opt[name]\<close>: the \<^verbatim>\<open>get\<close> trap of the first inner proxy.\<close>

definition ENV_opt_get :: "env \<Rightarrow> string \<Rightarrow> error + jsvalue" where
  "ENV_opt_get e name = Inr (Env (process_env e name))"

text \<open>\<^verbatim>\<open>ENV.num[name]\<close>: the \<^verbatim>\<open>get\<close> trap of the second inner proxy.\<close>

definition ENV_num_get :: "env \<Rightarrow> string \<Rightarrow> error + jsvalue" where
  "ENV_num_get e name =
     (let v = process_env e name in
      if v = Undefined
        then Inl (Error (''Environment variable '' @ name @ '' is undefined.''))
      else Inr (Number (parseInt (ToString v))))"

text \<open>The target object of the outer proxy, \<^verbatim>\<open>{opt: ..., num: ..., ok}\<close>.\<close>

definition target :: "(string \<times> jsvalue) list" where
  "target = [(''opt'', OptView), (''num'', NumView), (''ok'', OkFunction)]"

definition Reflect_get :: "(string \<times> jsvalue) list \<Rightarrow> string \<Rightarrow> jsvalue" where
  "Reflect_get obj name = (case map_of obj name of None \<Rightarrow> Env Undefined | Some v \<Rightarrow> v)"

text \<open>\<^verbatim>\<open>ENV[name]\<close>: the \<^verbatim>\<open>get\<close> trap of the outer proxy.\<close>

definition ENV_get :: "env \<Rightarrow> string \<Rightarrow> error + jsvalue" where
  "ENV_get e name =
     (if name \<in> set [''num'', ''opt'', ''ok''] then Inr (Reflect_get target name)
      else
        let v = process_env e name in
        if v = Undefined
          then Inl (Error (''Environment variable '' @ name @ '' is undefined.''))
        else Inr (Env v))"

text \<open>
  The three \<^verbatim>\<open>set\<close> traps: each throws, whatever it is given. The result is paired
  with the environment after the attempt.
\<close>

definition ENV_set :: "env \<Rightarrow> string \<Rightarrow> jsvalue \<Rightarrow> (error + unit) \<times> env" where
  "ENV_set e name v = (Inl (Error ''Cannot set env value.''), e)"

definition ENV_opt_set :: "env \<Rightarrow> string \<Rightarrow> jsvalue \<Rightarrow> (error + unit) \<times> env" where
  "ENV_opt_set e name v = (Inl (Error ''Cannot set env value.''), e)"

definition ENV_num_set :: "env \<Rightarrow> string \<Rightarrow> jsvalue \<Rightarrow> (error + unit) \<times> env" where
  "ENV_num_set e name v = (Inl (Error ''Cannot set env value.''), e)"

section \<open>Facts about the matcher and the loop\<close>

lemma match_here_Nil: "match_here [] = None"
  by (simp add: match_here_def starts_with_def)

lemma regex_exec_nonempty: "regex_exec line = Some r \<Longrightarrow> line \<noteq> []"
  by (cases line) (simp_all add: match_here_Nil)


lemma process_env_Str: "process_env e name = Str v \<longleftrightarrow> e name = Some v"
  by (simp add: process_env_def split: option.splits)

lemma process_env_Undefined:
  "process_env e name = Undefined \<longleftrightarrow> e name = None \<and> name \<notin> set Object_prototype"
  by (simp add: process_env_def split: option.splits)

lemma process_env_Inherited:
  "e name = None \<Longrightarrow> name \<in> set Object_prototype \<Longrightarrow> process_env e name = Inherited name"
  by (simp add: process_env_def)


lemma check_line_Next_silent:
  "snd (check_line inspect e l) = Next \<Longrightarrow> check_line inspect e l = ([], Next)"
  by (auto simp: check_line_def Let_def split: if_splits option.splits prod.splits)

lemma for_lines_skip:
  "\<forall>l\<in>set before. snd (check_line inspect e l) = Next \<Longrightarrow>
     for_lines inspect e (before @ ls) = for_lines inspect e ls"
proof (induction before)
  case Nil
  then show ?case by simp
next
  case (Cons l before)
  then have "check_line inspect e l = ([], Next)"
    by (simp add: check_line_Next_silent)
  with Cons show ?case by simp
qed

lemma run_exited: "exited p \<noteq> None \<Longrightarrow> run inspect e p evs = p"
  by (induction evs) (simp_all add: handle_def)

lemma check_line_required:
  assumes "regex_exec line = Some (m, v)"
    and "(m = None \<and> falsy (process_env e v)) \<or>
         (m = Some ''num.'' \<and>
            (falsy (process_env e v) \<or> isNaN (parseInt (ToString (process_env e v)))))"
  shows "check_line inspect e line =
      ([required_message (case m of None \<Rightarrow> [] | Some x \<Rightarrow> x) v
          (inspect (process_env e v))], Exit 1)"
  using assms regex_exec_nonempty [OF assms(1)]
  by (auto simp: check_line_def Let_def)

lemma check_line_unparsed:
  assumes "line \<noteq> []" and "regex_exec line = None"
  shows "check_line inspect e line =
      ([''Could not parse ENV grep result: '' @ take 100 line], Return)"
  using assms by (simp add: check_line_def)

lemma process_update:
  "p\<lparr>console := c, exited := x\<rparr> = \<lparr>console = c, exited = x\<rparr>"
  by (cases p) simp

lemma handle_stdout:
  assumes "exited p = None" and "split_nl data = before @ line # after"
    and "\<forall>l\<in>set before. snd (check_line inspect e l) = Next"
  shows "handle inspect e p (StdoutData data) =
     (case for_lines inspect e (line # after) of
        (out, r) \<Rightarrow> \<lparr>console = console p @ out, exited = r\<rparr>)"
  using assms by (simp add: handle_def on_stdout_data_def for_lines_skip process_update)

lemma starts_with_split: "starts_with p s \<Longrightarrow> length p = n \<Longrightarrow> s = p @ drop n s"
  unfolding starts_with_def by (metis append_take_drop_id)

lemma match_here_sound:
  assumes "match_here s = Some (m, v)"
  shows "\<exists>rest. s = ''ENV.'' @ (case m of None \<Rightarrow> [] | Some x \<Rightarrow> x) @ v @ rest
           \<and> (rest = [] \<or> \<not> is_word_char (hd rest))"
    and "v \<noteq> []" and "\<forall>c\<in>set v. is_word_char c"
    and "m = None \<or> m = Some ''opt.'' \<or> m = Some ''num.''"
proof -
  from assms have env: "starts_with ''ENV.'' s"
    by (auto simp: match_here_def split: if_splits)
  define r where "r = drop 4 s"
  have s: "s = ''ENV.'' @ r"
    unfolding r_def by (rule starts_with_split [OF env]) simp
  consider
      (opt) "starts_with ''opt.'' r" "m = Some ''opt.''" "v = takeWhile is_word_char (drop 4 r)"
    | (num) "starts_with ''num.'' r" "m = Some ''num.''" "v = takeWhile is_word_char (drop 4 r)"
    | (none) "m = None" "v = takeWhile is_word_char r"
    using assms env by (auto simp: match_here_def Let_def r_def split: if_splits)
  then have "(\<exists>rest. s = ''ENV.'' @ (case m of None \<Rightarrow> [] | Some x \<Rightarrow> x) @ v @ rest
           \<and> (rest = [] \<or> \<not> is_word_char (hd rest)))
      \<and> (\<forall>c\<in>set v. is_word_char c)
      \<and> (m = None \<or> m = Some ''opt.'' \<or> m = Some ''num.'')"
  proof cases
    case opt
    have "r = ''opt.'' @ drop 4 r"
      by (rule starts_with_split [OF opt(1)]) simp
    with s have "s = ''ENV.'' @ ''opt.'' @ v @ dropWhile is_word_char (drop 4 r)"
      by (simp add: opt(3))
    moreover have "dropWhile is_word_char (drop 4 r) = [] \<or>
        \<not> is_word_char (hd (dropWhile is_word_char (drop 4 r)))"
      using hd_dropWhile by blast
    moreover have "\<forall>c\<in>set v. is_word_char c"
      unfolding opt(3) by (auto dest: set_takeWhileD)
    ultimately show ?thesis using opt(2) by auto
  next
    case num
    have "r = ''num.'' @ drop 4 r"
      by (rule starts_with_split [OF num(1)]) simp
    with s have "s = ''ENV.'' @ ''num.'' @ v @ dropWhile is_word_char (drop 4 r)"
      by (simp add: num(3))
    moreover have "dropWhile is_word_char (drop 4 r) = [] \<or>
        \<not> is_word_char (hd (dropWhile is_word_char (drop 4 r)))"
      using hd_dropWhile by blast
    moreover have "\<forall>c\<in>set v. is_word_char c"
      unfolding num(3) by (auto dest: set_takeWhileD)
    ultimately show ?thesis using num(2) by auto
  next
    case none
    from s have "s = ''ENV.'' @ v @ dropWhile is_word_char r"
      by (simp add: none(2))
    moreover have "dropWhile is_word_char r = [] \<or>
        \<not> is_word_char (hd (dropWhile is_word_char r))"
      using hd_dropWhile by blast
    moreover have "\<forall>c\<in>set v. is_word_char c"
      unfolding none(2) by (auto dest: set_takeWhileD)
    ultimately show ?thesis using none(1) by auto
  qed
  then show "\<exists>rest. s = ''ENV.'' @ (case m of None \<Rightarrow> [] | Some x \<Rightarrow> x) @ v @ rest
           \<and> (rest = [] \<or> \<not> is_word_char (hd rest))"
    and "\<forall>c\<in>set v. is_word_char c"
    and "m = None \<or> m = Some ''opt.'' \<or> m = Some ''num.''"
    by blast+
  from assms show "v \<noteq> []"
    by (auto simp: match_here_def Let_def split: if_splits)
qed

lemma match_here_complete:
  "is_word_char c \<Longrightarrow> match_here (''ENV.'' @ c # rest) \<noteq> None"
  by (auto simp: match_here_def starts_with_def Let_def)

lemma regex_exec_append:
  "match_here s \<noteq> None \<Longrightarrow> regex_exec (pre @ s) \<noteq> None"
proof (induction pre)
  case Nil
  then show ?case by (cases s) (auto split: option.splits)
next
  case (Cons c pre)
  then show ?case by (auto split: option.splits)
qed

lemma regex_exec_complete:
  "is_word_char c \<Longrightarrow> regex_exec (pre @ ''ENV.'' @ c # rest) \<noteq> None"
  by (rule regex_exec_append) (rule match_here_complete)

subsection \<open>\<^verbatim>\<open>parseInt\<close> on decimal digits and on other first characters\<close>






lemma parseInt_no_integer:
  assumes "v = [] \<or> \<not> (StrWhiteSpaceChar (hd v) \<or> hd v = CHR ''+'' \<or> hd v = CHR ''-''
              \<or> is_radix_digit 10 (hd v))"
  shows "parseInt v = NaN"
proof (cases v)
  case Nil
  then show ?thesis by (simp add: parseInt_def)
next
  case (Cons c cs)
  with assms have c: "\<not> StrWhiteSpaceChar c" "c \<noteq> CHR ''+''" "c \<noteq> CHR ''-''"
      "\<not> is_radix_digit 10 c"
    by simp_all
  have "c \<noteq> CHR ''0''"
    using c(4) by (auto simp: is_radix_digit_def digit_value_def)
  with Cons c show ?thesis
    by (cases cs) (simp_all add: parseInt_def Let_def)
qed

lemma parseInt_rounds_to_even:
  "parseInt ''9007199254740993'' = Num 9007199254740992
   \<and> parseInt ''9007199254740995'' = Num 9007199254740996"
  by code_simp

lemma parseInt_negative_zero: "parseInt ''-0'' = NegZero"
  by code_simp

lemma parseInt_Inherited: "parseInt (ToString (Inherited n)) = NaN"
proof (cases "n = ''__proto__''")
  case True
  have "parseInt ''[object Object]'' = NaN"
    by (rule parseInt_no_integer)
      (simp add: StrWhiteSpaceChar_def is_radix_digit_def digit_value_def)
  with True show ?thesis by simp
next
  case False
  have "parseInt (CHR ''f'' # rest) = NaN" for rest
    by (rule parseInt_no_integer)
      (simp add: StrWhiteSpaceChar_def is_radix_digit_def digit_value_def)
  with False show ?thesis by simp
qed

lemma unmet_lookup:
  assumes "(m = None \<and> (e v = Some [] \<or> (e v = None \<and> v \<notin> set Object_prototype))) \<or>
         (m = Some ''num.'' \<and>
            (e v = None \<or> (\<exists>s. e v = Some s \<and> (s = [] \<or> isNaN (parseInt s)))))"
  shows "(m = None \<and> falsy (process_env e v)) \<or>
         (m = Some ''num.'' \<and>
            (falsy (process_env e v) \<or> isNaN (parseInt (ToString (process_env e v)))))"
proof (cases "e v")
  case None
  show ?thesis
  proof (cases "v \<in> set Object_prototype")
    case True
    with None have pe: "process_env e v = Inherited v" by (rule process_env_Inherited)
    have "isNaN (parseInt (ToString (process_env e v)))"
      unfolding pe parseInt_Inherited by simp
    moreover from assms None True have "m = Some ''num.''" by auto
    ultimately show ?thesis by blast
  next
    case False
    with None have "process_env e v = Undefined" by (simp add: process_env_Undefined)
    with assms show ?thesis by auto
  qed
next
  case (Some s)
  then have "process_env e v = Str s" by (simp add: process_env_Str)
  with assms Some show ?thesis by auto
qed

section \<open>The validator's fatal checks\<close>

text \<open>
  Claim C1, amended. Let a chunk of search output split into lines, let every line
  before \<open>line\<close> fall through to the next one, and let the usage extracted from
  \<open>line\<close> be unmet: no modifier and the variable empty, or not set under a name
  that is not a property of \<^verbatim>\<open>Object.prototype\<close>; or the modifier \<^verbatim>\<open>num.\<close> and
  the variable not set, empty, or with a value that \<^verbatim>\<open>parseInt\<close> turns into
  \<^verbatim>\<open>NaN\<close>. Then the handler prints exactly one line, the message that names the
  variable and shows the value looked up, and the process exits with status 1; the
  lines after it and every later event change nothing.
\<close>

theorem required_failure_exits:
  assumes "regex_exec line = Some (m, v)"
    and "(m = None \<and> (e v = Some [] \<or> (e v = None \<and> v \<notin> set Object_prototype))) \<or>
         (m = Some ''num.'' \<and>
            (e v = None \<or> (\<exists>s. e v = Some s \<and> (s = [] \<or> isNaN (parseInt s)))))"
    and "split_nl data = before @ line # after"
    and "\<forall>l\<in>set before. snd (check_line inspect e l) = Next"
    and "exited p = None"
  shows "handle inspect e p (StdoutData data) =
           \<lparr>console = console p @
              [required_message (case m of None \<Rightarrow> [] | Some x \<Rightarrow> x) v
                 (inspect (process_env e v))],
            exited = Some 1\<rparr>
         \<and> run inspect e p (StdoutData data # evs) = handle inspect e p (StdoutData data)"
proof -
  note unmet = unmet_lookup [where m = m and e = e and v = v, OF assms(2)]
  have h: "handle inspect e p (StdoutData data) =
           \<lparr>console = console p @
              [required_message (case m of None \<Rightarrow> [] | Some x \<Rightarrow> x) v
                 (inspect (process_env e v))],
            exited = Some 1\<rparr>"
    using handle_stdout [OF assms(5) assms(3) assms(4)]
      check_line_required [where inspect = inspect and e = e, OF assms(1) unmet]
    by simp
  then have "exited (handle inspect e p (StdoutData data)) \<noteq> None" by simp
  then have "run inspect e (handle inspect e p (StdoutData data)) evs =
      handle inspect e p (StdoutData data)"
    by (rule run_exited)
  with h show ?thesis by simp
qed

theorem required_failure_exits_witness:
  "ok inspect_plain (env_of [(''HOME'', ''/root''), (''PORT'', ''notanumber'')])
      [StdoutData ''a.ts:ENV.HOME\<newline>b.ts:ENV.num.PORT\<newline>c.ts:ENV.FOO\<newline>'',
       StderrData ''late''] =
     \<lparr>console =
        [''ENV found required field num.PORT, but given value '' @ [CHR 0x27] @ ''notanumber''
           @ [CHR 0x27] @ '' is incompatible.''],
      exited = Some 1\<rparr>"
proof -
  let ?e = "env_of [(''HOME'', ''/root''), (''PORT'', ''notanumber'')]"
  let ?data = "''a.ts:ENV.HOME\<newline>b.ts:ENV.num.PORT\<newline>c.ts:ENV.FOO\<newline>''"
  have h1: "regex_exec ''b.ts:ENV.num.PORT'' = Some (Some ''num.'', ''PORT'')"
    by code_simp
  have nan: "isNaN (parseInt ''notanumber'')" by code_simp
  have "?e ''PORT'' = Some ''notanumber''" by (simp add: env_of_def)
  with nan have h2: "(Some ''num.'' = None \<and>
            (?e ''PORT'' = Some [] \<or> (?e ''PORT'' = None \<and> ''PORT'' \<notin> set Object_prototype))) \<or>
         (Some ''num.'' = Some ''num.'' \<and>
            (?e ''PORT'' = None \<or>
             (\<exists>s. ?e ''PORT'' = Some s \<and> (s = [] \<or> isNaN (parseInt s)))))"
    by simp
  have h3: "split_nl ?data = [''a.ts:ENV.HOME''] @ ''b.ts:ENV.num.PORT'' # [''c.ts:ENV.FOO'', []]"
    by code_simp
  have h4: "\<forall>l\<in>set [''a.ts:ENV.HOME'']. snd (check_line inspect_plain ?e l) = Next"
    by code_simp
  have h5: "exited started = None" by (simp add: started_def)
  note r = required_failure_exits [where e = ?e and inspect = inspect_plain
      and evs = "[StderrData ''late'']", OF h1 h2 h3 h4 h5]
  have "ok inspect_plain ?e [StdoutData ?data, StderrData ''late''] =
      run inspect_plain ?e started [StdoutData ?data, StderrData ''late'']"
    by (simp only: ok_def)
  also have "\<dots> = handle inspect_plain ?e started (StdoutData ?data)"
    by (rule r [THEN conjunct2])
  also have "\<dots> = \<lparr>console = console started @
      [required_message (case Some ''num.'' of None \<Rightarrow> [] | Some x \<Rightarrow> x) ''PORT''
         (inspect_plain (process_env ?e ''PORT''))], exited = Some 1\<rparr>"
    by (rule r [THEN conjunct1])
  also have "\<dots> = \<lparr>console =
      [''ENV found required field num.PORT, but given value '' @ [CHR 0x27] @ ''notanumber''
         @ [CHR 0x27] @ '' is incompatible.''],
      exited = Some 1\<rparr>"
    by (simp add: started_def required_message_def process_env_def env_of_def)
  finally show ?thesis .
qed

text \<open>
  Claim C1 as written fails at a name that \<^verbatim>\<open>process.env\<close> inherits: with no
  variable \<^verbatim>\<open>constructor\<close> set, the line \<^verbatim>\<open>a.ts:ENV.constructor\<close> has a usage
  with no modifier whose variable is not in the environment, and yet the lookup
  yields a function, nothing is printed and the process goes on.
\<close>

theorem required_failure_counterexample:
  "regex_exec ''a.ts:ENV.constructor'' = Some (None, ''constructor'')
   \<and> env_of [] ''constructor'' = None
   \<and> ok inspect_plain (env_of []) [StdoutData ''a.ts:ENV.constructor\<newline>''] =
       \<lparr>console = [], exited = None\<rparr>"
  by code_simp

section \<open>Lines the validator does not check\<close>

text \<open>
  Claim C5. A non-empty line that the extraction pattern does not match, reached by
  the loop, makes the handler print one line, \<^verbatim>\<open>Could not parse ENV grep result:\<close>
  followed by the first 100 characters of the line, and return: the lines after it
  in the chunk are not looked at, the process does not exit, and the events that
  follow are handled from the resulting state.
\<close>

theorem unparsed_line_logged:
  assumes "line \<noteq> []"
    and "regex_exec line = None"
    and "split_nl data = before @ line # after"
    and "\<forall>l\<in>set before. snd (check_line inspect e l) = Next"
    and "exited p = None"
  shows "handle inspect e p (StdoutData data) =
           \<lparr>console = console p @ [''Could not parse ENV grep result: '' @ take 100 line],
            exited = None\<rparr>
         \<and> run inspect e p (StdoutData data # evs) =
           run inspect e
             \<lparr>console = console p @ [''Could not parse ENV grep result: '' @ take 100 line],
              exited = None\<rparr> evs"
proof -
  have "handle inspect e p (StdoutData data) =
           \<lparr>console = console p @ [''Could not parse ENV grep result: '' @ take 100 line],
            exited = None\<rparr>"
    using handle_stdout [OF assms(5) assms(3) assms(4)]
      check_line_unparsed [where inspect = inspect and e = e, OF assms(1) assms(2)]
    by simp
  then show ?thesis by simp
qed

theorem unparsed_line_logged_witness:
  "ok inspect_plain (env_of [(''HOME'', ''/root'')])
      [StdoutData ''a.ts:ENV.HOME\<newline>b.ts:ENV.;\<newline>c.ts:ENV.FOO\<newline>'',
       StdoutData ''d.ts:ENV.BAR\<newline>''] =
     \<lparr>console = [''Could not parse ENV grep result: b.ts:ENV.;'',
        ''ENV found required field BAR, but given value undefined is incompatible.''],
      exited = Some 1\<rparr>"
proof -
  let ?e = "env_of [(''HOME'', ''/root'')]"
  let ?data = "''a.ts:ENV.HOME\<newline>b.ts:ENV.;\<newline>c.ts:ENV.FOO\<newline>''"
  let ?evs = "[StdoutData ''d.ts:ENV.BAR\<newline>'']"
  have h1: "''b.ts:ENV.;'' \<noteq> []" by simp
  have h2: "regex_exec ''b.ts:ENV.;'' = None" by code_simp
  have h3: "split_nl ?data = [''a.ts:ENV.HOME''] @ ''b.ts:ENV.;'' # [''c.ts:ENV.FOO'', []]"
    by code_simp
  have h4: "\<forall>l\<in>set [''a.ts:ENV.HOME'']. snd (check_line inspect_plain ?e l) = Next"
    by code_simp
  have h5: "exited started = None" by (simp add: started_def)
  note r = unparsed_line_logged [where e = ?e and inspect = inspect_plain and evs = ?evs,
      OF h1 h2 h3 h4 h5]
  have "ok inspect_plain ?e (StdoutData ?data # ?evs) =
      run inspect_plain ?e started (StdoutData ?data # ?evs)"
    by (simp only: ok_def)
  also have "\<dots> = run inspect_plain ?e
      \<lparr>console = console started @
         [''Could not parse ENV grep result: '' @ take 100 ''b.ts:ENV.;''], exited = None\<rparr> ?evs"
    by (rule r [THEN conjunct2])
  also have "\<dots> = \<lparr>console = [''Could not parse ENV grep result: b.ts:ENV.;'',
        ''ENV found required field BAR, but given value undefined is incompatible.''],
      exited = Some 1\<rparr>"
    by code_simp
  finally show ?thesis .
qed



text \<open>
  Claim C4, at a chunk of two lines in an empty environment. The first line uses
  \<^verbatim>\<open>ENV.opt.BAZ\<close>, the second \<^verbatim>\<open>ENV.FOO\<close>. The handler returns at the first
  line, so nothing is printed and the process goes on, although the second line on
  its own ends the process with the message for \<^verbatim>\<open>FOO\<close>.
\<close>

theorem opt_usage_ends_batch:
  "ok inspect_plain (env_of []) [StdoutData ''a.ts:ENV.opt.BAZ\<newline>b.ts:ENV.FOO\<newline>''] =
     \<lparr>console = [], exited = None\<rparr>
   \<and> ok inspect_plain (env_of []) [StdoutData ''b.ts:ENV.FOO\<newline>''] =
     \<lparr>console = [''ENV found required field FOO, but given value undefined is incompatible.''],
      exited = Some 1\<rparr>"
  by code_simp

section \<open>The accessor's lookups\<close>

text \<open>
  Claim C6, amended. For every name other than the three that the outer \<^verbatim>\<open>get\<close>
  trap reserves (\<^verbatim>\<open>num\<close>, \<^verbatim>\<open>opt\<close>, \<^verbatim>\<open>ok\<close>): when the environment holds a
  string under the name, \<^verbatim>\<open>ENV[name]\<close> is exactly that string; when it holds
  none and the name is not a property of \<^verbatim>\<open>Object.prototype\<close>, the lookup throws
  the error that says the variable is undefined.
\<close>

theorem ENV_get_unreserved:
  assumes "name \<notin> {''num'', ''opt'', ''ok''}"
  shows "(\<forall>v. e name = Some v \<longrightarrow> ENV_get e name = Inr (Env (Str v)))
         \<and> (e name = None \<and> name \<notin> set Object_prototype
              \<longrightarrow> ENV_get e name = Inl (MissingRequiredVariable name))"
  using assms
  by (simp add: ENV_get_def MissingRequiredVariable_def process_env_def Let_def)

theorem ENV_get_unreserved_witness:
  "ENV_get (env_of [(''HOME'', ''/root'')]) ''HOME'' = Inr (Env (Str ''/root''))
   \<and> ENV_get (env_of []) ''HOME'' = Inl (Error ''Environment variable HOME is undefined.'')"
proof -
  have h: "''HOME'' \<notin> {''num'', ''opt'', ''ok''}" by simp
  have p: "''HOME'' \<notin> set Object_prototype" by (simp add: Object_prototype_def)
  from ENV_get_unreserved [OF h, of "env_of [(''HOME'', ''/root'')]"]
    ENV_get_unreserved [OF h, of "env_of []"] p
  show ?thesis by (simp add: env_of_def MissingRequiredVariable_def)
qed

text \<open>
  Claim C6 as written fails at the reserved names and at the inherited ones: with
  \<^verbatim>\<open>opt=x\<close> in the environment \<^verbatim>\<open>ENV.opt\<close> is the inner proxy and not \<^verbatim>\<open>x\<close>;
  with no variable \<^verbatim>\<open>ok\<close> the lookup \<^verbatim>\<open>ENV.ok\<close> yields the function and does
  not throw; and with no variable \<^verbatim>\<open>constructor\<close> the lookup
  \<^verbatim>\<open>ENV.constructor\<close> yields the inherited function and does not throw.
\<close>

theorem ENV_get_counterexample:
  "env_of [(''opt'', ''x'')] ''opt'' = Some ''x'' \<and> ''x'' \<noteq> []
   \<and> ENV_get (env_of [(''opt'', ''x'')]) ''opt'' = Inr OptView
   \<and> env_of [] ''ok'' = None
   \<and> ENV_get (env_of []) ''ok'' = Inr OkFunction
   \<and> env_of [] ''constructor'' = None
   \<and> ENV_get (env_of []) ''constructor'' = Inr (Env (Inherited ''constructor''))"
  by code_simp

text \<open>
  Claim C7, amended. \<^verbatim>\<open>ENV.opt[name]\<close> never throws: it is the string stored under
  the name when there is one, and \<^verbatim>\<open>undefined\<close> when there is none and the name is
  not a property of \<^verbatim>\<open>Object.prototype\<close>; \<^verbatim>\<open>undefined\<close> is not the empty string.
\<close>

theorem ENV_opt_get_total:
  "(\<forall>v. e name = Some v \<longrightarrow> ENV_opt_get e name = Inr (Env (Str v)))
   \<and> (e name = None \<and> name \<notin> set Object_prototype
        \<longrightarrow> ENV_opt_get e name = Inr (Env Undefined))
   \<and> (\<forall>err. ENV_opt_get e name \<noteq> Inl err)
   \<and> Undefined \<noteq> Str []"
  by (simp add: ENV_opt_get_def process_env_def)

theorem ENV_opt_get_total_witness:
  "ENV_opt_get (env_of [(''BAZ'', ''on'')]) ''BAZ'' = Inr (Env (Str ''on''))
   \<and> ENV_opt_get (env_of []) ''BAZ'' = Inr (Env Undefined)"
proof -
  have p: "''BAZ'' \<notin> set Object_prototype" by (simp add: Object_prototype_def)
  from ENV_opt_get_total [of "env_of [(''BAZ'', ''on'')]" "''BAZ''"]
    ENV_opt_get_total [of "env_of []" "''BAZ''"] p
  show ?thesis by (simp add: env_of_def)
qed

text \<open>
  Claim C7 as written fails at a name that \<^verbatim>\<open>process.env\<close> inherits: with no
  variable \<^verbatim>\<open>toString\<close> set, \<^verbatim>\<open>ENV.opt.toString\<close> is the inherited function and
  not \<^verbatim>\<open>undefined\<close>.
\<close>

theorem ENV_opt_get_counterexample:
  "env_of [] ''toString'' = None
   \<and> ENV_opt_get (env_of []) ''toString'' = Inr (Env (Inherited ''toString''))"
  by code_simp

text \<open>
  Claim C8. An assignment through \<^verbatim>\<open>ENV\<close>, \<^verbatim>\<open>ENV.opt\<close> or \<^verbatim>\<open>ENV.num\<close> throws
  \<^verbatim>\<open>Cannot set env value.\<close> and leaves the environment as it was, so each of the
  three lookups answers after the attempt what it answered before.
\<close>

theorem writes_always_throw:
  "ENV_set e name v = (Inl ImmutableAccessError, e)
   \<and> ENV_opt_set e name v = (Inl ImmutableAccessError, e)
   \<and> ENV_num_set e name v = (Inl ImmutableAccessError, e)
   \<and> ENV_get (snd (ENV_set e name v)) k = ENV_get e k
   \<and> ENV_opt_get (snd (ENV_set e name v)) k = ENV_opt_get e k
   \<and> ENV_num_get (snd (ENV_set e name v)) k = ENV_num_get e k
   \<and> ENV_get (snd (ENV_opt_set e name v)) k = ENV_get e k
   \<and> ENV_opt_get (snd (ENV_opt_set e name v)) k = ENV_opt_get e k
   \<and> ENV_num_get (snd (ENV_opt_set e name v)) k = ENV_num_get e k
   \<and> ENV_get (snd (ENV_num_set e name v)) k = ENV_get e k
   \<and> ENV_opt_get (snd (ENV_num_set e name v)) k = ENV_opt_get e k
   \<and> ENV_num_get (snd (ENV_num_set e name v)) k = ENV_num_get e k"
  by (simp add: ENV_set_def ENV_opt_set_def ENV_num_set_def ImmutableAccessError_def)

text \<open>
  Claim C9. A direct lookup of \<^verbatim>\<open>opt\<close>, \<^verbatim>\<open>num\<close> or \<^verbatim>\<open>ok\<close> yields the inner
  proxy or the validator function in every environment: it does not throw, and the
  environment, also one that has a variable of that name, has no part in the result.
\<close>

theorem reserved_names_bypass_env:
  "ENV_get e ''opt'' = Inr OptView
   \<and> ENV_get e ''num'' = Inr NumView
   \<and> ENV_get e ''ok'' = Inr OkFunction"
  by (simp add: ENV_get_def Reflect_get_def target_def)




text \<open>
  Claim C3, amended. Neither required path ever yields \<^verbatim>\<open>undefined\<close>: a lookup
  that returns, returns something else. A name with no variable, which is not a
  property of \<^verbatim>\<open>Object.prototype\<close>, makes the numeric path throw, and the direct
  path too unless the name is one of the three reserved ones.
\<close>

theorem required_paths_never_undefined:
  "(\<forall>r. ENV_get e name = Inr r \<longrightarrow> r \<noteq> Env Undefined)
   \<and> (\<forall>r. ENV_num_get e name = Inr r \<longrightarrow> r \<noteq> Env Undefined)
   \<and> (e name = None \<and> name \<notin> set Object_prototype \<and> name \<notin> {''num'', ''opt'', ''ok''}
        \<longrightarrow> ENV_get e name = Inl (MissingRequiredVariable name))
   \<and> (e name = None \<and> name \<notin> set Object_prototype
        \<longrightarrow> ENV_num_get e name = Inl (MissingRequiredVariable name))"
proof (intro conjI allI impI)
  show "r \<noteq> Env Undefined" if "ENV_get e name = Inr r" for r
    using that
    by (auto simp: ENV_get_def Reflect_get_def target_def Let_def split: if_splits)
  show "r \<noteq> Env Undefined" if "ENV_num_get e name = Inr r" for r
    using that by (auto simp: ENV_num_get_def Let_def split: if_splits)
  show "ENV_get e name = Inl (MissingRequiredVariable name)"
    if "e name = None \<and> name \<notin> set Object_prototype \<and> name \<notin> {''num'', ''opt'', ''ok''}"
    using that by (simp add: ENV_get_def process_env_def MissingRequiredVariable_def)
  show "ENV_num_get e name = Inl (MissingRequiredVariable name)"
    if "e name = None \<and> name \<notin> set Object_prototype"
    using that by (simp add: ENV_num_get_def process_env_def MissingRequiredVariable_def)
qed

theorem required_paths_never_undefined_witness:
  "ENV_get (env_of [(''HOME'', ''/root'')]) ''HOME'' = Inr (Env (Str ''/root''))
   \<and> Env (Str ''/root'') \<noteq> Env Undefined
   \<and> ENV_num_get (env_of [(''HOME'', ''/root'')]) ''HOME'' = Inr (Number NaN)
   \<and> Number NaN \<noteq> Env Undefined
   \<and> ENV_get (env_of []) ''HOME'' = Inl (Error ''Environment variable HOME is undefined.'')
   \<and> ENV_num_get (env_of []) ''HOME'' = Inl (Error ''Environment variable HOME is undefined.'')"
proof -
  have a: "ENV_get (env_of [(''HOME'', ''/root'')]) ''HOME'' = Inr (Env (Str ''/root''))"
    by code_simp
  have b: "ENV_num_get (env_of [(''HOME'', ''/root'')]) ''HOME'' = Inr (Number NaN)"
    by code_simp
  have c: "env_of [] ''HOME'' = None" "''HOME'' \<notin> {''num'', ''opt'', ''ok''}"
      "''HOME'' \<notin> set Object_prototype"
    by (simp_all add: env_of_def Object_prototype_def)
  note r1 = required_paths_never_undefined [of "env_of [(''HOME'', ''/root'')]" "''HOME''"]
  note r2 = required_paths_never_undefined [of "env_of []" "''HOME''"]
  from r1 a have "Env (Str ''/root'') \<noteq> Env Undefined" by blast
  moreover from r1 b have "Number NaN \<noteq> Env Undefined" by blast
  moreover from r2 c have "ENV_get (env_of []) ''HOME'' = Inl (MissingRequiredVariable ''HOME'')"
    by blast
  moreover from r2 c have "ENV_num_get (env_of []) ''HOME'' = Inl (MissingRequiredVariable ''HOME'')"
    by blast
  ultimately show ?thesis using a b by (simp add: MissingRequiredVariable_def)
qed

text \<open>
  Claim C3 as written fails on both paths: a variable set to the empty string is
  returned as the empty string by \<^verbatim>\<open>ENV.NAME\<close>, and a variable with no integer
  in it is returned as \<^verbatim>\<open>NaN\<close> by \<^verbatim>\<open>ENV.num.PORT\<close>; and with no variable
  \<^verbatim>\<open>hasOwnProperty\<close> set, \<^verbatim>\<open>ENV.hasOwnProperty\<close> returns the inherited function.
  None of the three lookups throws.
\<close>

theorem required_paths_counterexample:
  "ENV_get (env_of [(''NAME'', [])]) ''NAME'' = Inr (Env (Str []))
   \<and> ENV_num_get (env_of [(''PORT'', ''abc'')]) ''PORT'' = Inr (Number NaN)
   \<and> env_of [] ''hasOwnProperty'' = None
   \<and> ENV_get (env_of []) ''hasOwnProperty'' = Inr (Env (Inherited ''hasOwnProperty''))"
  by code_simp

end
